theory Spec2Isabelle
  imports Complex_Main
begin

section \<open>Data model (models/Match.js, models/Ball.js)\<close>

text \<open>
  Mongo object identifiers are strings. A JavaScript Number that holds a count is an
  \<open>int\<close>; the display value \<open>overs\<close> of an innings, the only fractional Number, is a
  \<open>rat\<close> (the exact quotient, where JavaScript rounds to a double). The field \<open>overs\<close>
  of a match (the format limit) is called \<open>maxOvers\<close> here, the name the handler gives
  it (\<open>const maxOvers = match.overs\<close>), because an innings has a field \<open>overs\<close> as well.
\<close>

type_synonym objectId = string

datatype matchStatus = Scheduled | Live | Completed | Abandoned

datatype resultType = Runs | Wickets | Tie | NoResult

datatype matchType = T20 | ODI | Test | T10

datatype tossDecision = Bat | Bowl

datatype wicketType =
  Bowled | Caught | Lbw | Stumped | RunOut | HitWicket | Obstructing | HandledBall | TimedOut

text \<open>
  A value of a request body that the handler adds to a total: a JSON number or a JSON
  string. The validator \<open>isNumeric()\<close> admits both and the handler converts neither.
\<close>

datatype jsValue = JNum int | JStr string

text \<open>
  The libraries the routes call are not part of the repository; their functions are
  parameters of the model. \<open>isNumeric\<close> is the express-validator check on a string,
  \<open>castNumber\<close> is the cast of a string by a Mongoose Number path (\<open>None\<close> when the cast
  fails), \<open>isObjectId\<close> tells whether Mongoose casts a string to an ObjectId.
\<close>

record lib =
  isNumeric :: "string \<Rightarrow> bool"
  castNumber :: "string \<Rightarrow> int option"
  isObjectId :: "string \<Rightarrow> bool"

record extras =
  wides :: int
  noBalls :: int
  byes :: int
  legByes :: int

record innings =
  battingTeam :: objectId
  bowlingTeam :: objectId
  runs :: int
  wickets :: int
  overs :: rat
  balls :: int
  extras :: extras
  isCompleted :: bool

record matchResult =
  winner :: "objectId option"
  resultType :: "resultType option"
  margin :: "string option"

record match =
  team1 :: objectId
  team2 :: objectId
  matchType :: matchType
  maxOvers :: int
  status :: matchStatus
  tossWinner :: "objectId option"
  tossDecision :: "tossDecision option"
  currentInnings :: int
  innings :: "innings list"
  result :: matchResult

text \<open>
  The body of a POST /api/matches request. The route documents \<open>team1\<close>, \<open>team2\<close>,
  \<open>matchType\<close> and \<open>overs\<close> (and \<open>venue\<close>, \<open>matchDate\<close>, which the scoring never
  reads), but hands the whole body to \<open>new Match(req.body)\<close>: every other field of the
  schema that the body carries is stored too. An absent \<open>status\<close> or \<open>currentInnings\<close>
  is \<open>None\<close>; an absent \<open>innings\<close> array is \<open>[]\<close> and an absent \<open>result\<close> has no field
  set, which is what the schema makes of them.
\<close>

record matchBody =
  mb_team1 :: objectId
  mb_team2 :: objectId
  mb_matchType :: matchType
  mb_overs :: int
  mb_status :: "matchStatus option"
  mb_tossWinner :: "objectId option"
  mb_tossDecision :: "tossDecision option"
  mb_currentInnings :: "int option"
  mb_innings :: "innings list"
  mb_result :: matchResult

text \<open>
  The body of a POST /api/scoring/ball request: \<open>runs\<close> is a JSON number or a JSON
  string, the flags are booleans (absent is false).
\<close>

record ballRequest =
  req_match :: objectId
  bowler :: objectId
  batsman :: objectId
  nonStriker :: "objectId option"
  req_runs :: jsValue
  isWide :: bool
  isNoBall :: bool
  isBye :: bool
  isLegBye :: bool
  isWicket :: bool
  req_wicketType :: "wicketType option"
  fielder :: "objectId option"
  commentary :: "string option"

text \<open>
  A ball document: the fields of the request body (\<open>...req.body\<close>) as the Ball schema
  casts them, then the innings number and the computed position.
\<close>

record ball =
  ball_match :: objectId
  ball_bowler :: objectId
  ball_batsman :: objectId
  ball_nonStriker :: "objectId option"
  ball_runs :: int
  ball_isWide :: bool
  ball_isNoBall :: bool
  ball_isBye :: bool
  ball_isLegBye :: bool
  ball_isWicket :: bool
  ball_wicketType :: "wicketType option"
  ball_fielder :: "objectId option"
  ball_commentary :: "string option"
  ball_innings :: int
  ball_over :: int
  ball_no :: int

text \<open>The collections: teams (their identifiers), matches by identifier, the ball log.\<close>

record db =
  teams :: "objectId set"
  matches :: "objectId \<rightharpoonup> match"
  ballLog :: "ball list"

text \<open>A failure response: the HTTP status and the message of the JSON body.\<close>

datatype failure = Failure nat string

text \<open>The \<open>data\<close> of the 201 response of the ball handler.\<close>

record response =
  resp_ball :: ball
  resp_id :: objectId
  resp_status :: matchStatus
  resp_currentInnings :: int
  resp_innings :: "innings list"

section \<open>JavaScript primitives\<close>

text \<open>
  \<open>a % b\<close> of JavaScript truncates towards zero: the result has the sign of \<open>a\<close>.
  \<open>Math.floor(a / 6)\<close> on an integer \<open>a\<close> is \<open>a div 6\<close> of HOL, which rounds down.
\<close>

definition jsRem :: "int \<Rightarrow> int \<Rightarrow> int" where
  "jsRem a b = (if a < 0 then - ((- a) mod \<bar>b\<bar>) else a mod \<bar>b\<bar>)"

text \<open>\<open>xs[i]\<close> of JavaScript: \<open>undefined\<close> out of range.\<close>

definition nthOpt :: "'a list \<Rightarrow> int \<Rightarrow> 'a option" where
  "nthOpt xs i = (if 0 \<le> i \<and> i < int (length xs) then Some (xs ! nat i) else None)"

text \<open>The decimal text of an integer, as a template literal or a concatenation prints it.\<close>

definition digitChar :: "nat \<Rightarrow> char" where
  "digitChar d = ''0123456789'' ! d"

function showNat :: "nat \<Rightarrow> string" where
  "showNat n = (if n < 10 then [digitChar n] else showNat (n div 10) @ [digitChar (n mod 10)])"
  by pat_completeness auto
termination
  by (relation "measure id") auto

definition showInt :: "int \<Rightarrow> string" where
  "showInt i = (if i < 0 then CHR ''-'' # showNat (nat (- i)) else showNat (nat i))"

text \<open>\<open>a + b\<close> of JavaScript: a sum of two numbers, a concatenation as soon as one is a string.\<close>

fun jsAdd :: "jsValue \<Rightarrow> jsValue \<Rightarrow> jsValue" where
  "jsAdd (JNum a) (JNum b) = JNum (a + b)"
| "jsAdd (JNum a) (JStr t) = JStr (showInt a @ t)"
| "jsAdd (JStr s) (JNum b) = JStr (s @ showInt b)"
| "jsAdd (JStr s) (JStr t) = JStr (s @ t)"

text \<open>The request validator \<open>body('runs').isNumeric()\<close>: a number always passes.\<close>

definition numericRuns :: "lib \<Rightarrow> jsValue \<Rightarrow> bool" where
  "numericRuns L v = (case v of JNum n \<Rightarrow> True | JStr s \<Rightarrow> isNumeric L s)"

text \<open>What a Mongoose Number path makes of a value assigned to it; \<open>None\<close> is a CastError.\<close>

definition toNumber :: "lib \<Rightarrow> jsValue \<Rightarrow> int option" where
  "toNumber L v = (case v of JNum n \<Rightarrow> Some n | JStr s \<Rightarrow> castNumber L s)"

text \<open>\<open>field += v\<close> on a Number path that holds \<open>old\<close>.\<close>

definition addTo :: "lib \<Rightarrow> int \<Rightarrow> jsValue \<Rightarrow> int option" where
  "addTo L old v = toNumber L (jsAdd (JNum old) v)"

section \<open>Creating and starting a match (routes/matches.js)\<close>

definition emptyResult :: matchResult where
  "emptyResult = \<lparr>winner = None, resultType = None, margin = None\<rparr>"

text \<open>\<open>new Match(req.body)\<close>: the body's fields, the schema defaults for the absent ones.\<close>

definition newMatch :: "matchBody \<Rightarrow> match" where
  "newMatch b =
     \<lparr>team1 = mb_team1 b, team2 = mb_team2 b, matchType = mb_matchType b, maxOvers = mb_overs b,
      status = (case mb_status b of None \<Rightarrow> Scheduled | Some s \<Rightarrow> s),
      tossWinner = mb_tossWinner b, tossDecision = mb_tossDecision b,
      currentInnings = (case mb_currentInnings b of None \<Rightarrow> 1 | Some c \<Rightarrow> c),
      innings = mb_innings b, result = mb_result b\<rparr>"

text \<open>The validators of the Match schema that a typed body can fail: \<open>currentInnings\<close>.\<close>

definition validMatch :: "match \<Rightarrow> bool" where
  "validMatch m \<longleftrightarrow> 1 \<le> currentInnings m \<and> currentInnings m \<le> 4"

text \<open>
  POST /api/matches. The new document's identifier is the parameter \<open>mid\<close>. An
  exception (a team identifier that does not cast, a schema validator that fails) is
  answered 500.
\<close>

definition createMatch :: "lib \<Rightarrow> db \<Rightarrow> objectId \<Rightarrow> matchBody \<Rightarrow> failure + db" where
  "createMatch L d mid b =
     (if mb_team1 b = [] \<or> mb_team2 b = [] then Inl (Failure 400 ''Validation failed'')
      else if mb_team1 b = mb_team2 b then Inl (Failure 400 ''Teams cannot be the same'')
      else if \<not> isObjectId L (mb_team1 b) \<or> \<not> isObjectId L (mb_team2 b)
        then Inl (Failure 500 ''Server error'')
      else if mb_team1 b \<notin> teams d \<or> mb_team2 b \<notin> teams d
        then Inl (Failure 400 ''One or both teams not found'')
      else if \<not> validMatch (newMatch b) then Inl (Failure 500 ''Server error'')
      else Inr (d\<lparr>matches := (matches d)(mid \<mapsto> newMatch b)\<rparr>))"

text \<open>The body with the documented fields only.\<close>

definition documentedBody :: "objectId \<Rightarrow> objectId \<Rightarrow> matchType \<Rightarrow> int \<Rightarrow> matchBody" where
  "documentedBody t1 t2 mt ov =
     \<lparr>mb_team1 = t1, mb_team2 = t2, mb_matchType = mt, mb_overs = ov, mb_status = None,
      mb_tossWinner = None, mb_tossDecision = None, mb_currentInnings = None,
      mb_innings = [], mb_result = emptyResult\<rparr>"

definition zeroExtras :: extras where
  "zeroExtras = \<lparr>wides = 0, noBalls = 0, byes = 0, legByes = 0\<rparr>"

definition freshInnings :: "objectId \<Rightarrow> objectId \<Rightarrow> innings" where
  "freshInnings bat bowl =
     \<lparr>battingTeam = bat, bowlingTeam = bowl, runs = 0, wickets = 0, overs = 0, balls = 0,
      extras = zeroExtras, isCompleted = False\<rparr>"

text \<open>
  PATCH /api/matches/:id/start. A match identifier that does not cast makes \<open>findById\<close>
  throw, a toss winner that does not cast makes \<open>match.save()\<close> reject: both are
  answered 500.
\<close>

definition startMatch ::
  "lib \<Rightarrow> db \<Rightarrow> objectId \<Rightarrow> objectId \<Rightarrow> tossDecision \<Rightarrow> failure + db" where
  "startMatch L d mid tw td =
     (if \<not> isObjectId L mid then Inl (Failure 500 ''Server error'')
      else case matches d mid of
        None \<Rightarrow> Inl (Failure 404 ''Match not found'')
      | Some m \<Rightarrow>
          if status m \<noteq> Scheduled then Inl (Failure 400 ''Match cannot be started'')
          else if \<not> isObjectId L tw then Inl (Failure 500 ''Server error'')
          else
            let other = (if tw = team1 m then team2 m else team1 m);
                bat = (if td = Bat then tw else other);
                bowl = (if td = Bowl then tw else other);
                m' = m\<lparr>status := Live, tossWinner := Some tw, tossDecision := Some td,
                        innings := [freshInnings bat bowl]\<rparr>
            in Inr (d\<lparr>matches := (matches d)(mid \<mapsto> m')\<rparr>))"

section \<open>Recording a ball (routes/scoring.js, POST /ball)\<close>

subsection \<open>Calculate over and ball number (lines 92-107)\<close>

definition totalBalls :: "int \<Rightarrow> bool \<Rightarrow> bool \<Rightarrow> int" where
  "totalBalls b w n = b + (if w \<or> n then 0 else 1)"

definition rawBall :: "int \<Rightarrow> bool \<Rightarrow> bool \<Rightarrow> int" where
  "rawBall b w n = jsRem (totalBalls b w n) 6 + 1"

text \<open>The pair (over, ball) stamped on the ball document, with the guard for a 7th ball.\<close>

definition calculateOverAndBall :: "int \<Rightarrow> bool \<Rightarrow> bool \<Rightarrow> int \<times> int" where
  "calculateOverAndBall b w n =
     (let over = totalBalls b w n div 6;
          ball = rawBall b w n
      in (if ball = 7 then over + 1 else over, if ball = 7 then 1 else ball))"

text \<open>\<open>new Ball(ballData)\<close>, with \<open>rn\<close> the number the schema casts the body's runs to.\<close>

definition ballData :: "match \<Rightarrow> innings \<Rightarrow> ballRequest \<Rightarrow> int \<Rightarrow> ball" where
  "ballData m cur req rn =
     (let ob = calculateOverAndBall (balls cur) (isWide req) (isNoBall req)
      in \<lparr>ball_match = req_match req, ball_bowler = bowler req, ball_batsman = batsman req,
          ball_nonStriker = nonStriker req, ball_runs = rn, ball_isWide = isWide req,
          ball_isNoBall = isNoBall req, ball_isBye = isBye req, ball_isLegBye = isLegBye req,
          ball_isWicket = isWicket req, ball_wicketType = req_wicketType req,
          ball_fielder = fielder req, ball_commentary = commentary req,
          ball_innings = currentInnings m, ball_over = fst ob, ball_no = snd ob\<rparr>)"

text \<open>
  What \<open>ballRecord.save()\<close> checks: the identifiers cast, and the numbers are within
  the bounds of the Ball schema.
\<close>

definition validBall :: "lib \<Rightarrow> ball \<Rightarrow> bool" where
  "validBall L bl \<longleftrightarrow>
     isObjectId L (ball_match bl) \<and> isObjectId L (ball_bowler bl) \<and>
     isObjectId L (ball_batsman bl) \<and>
     (case ball_nonStriker bl of None \<Rightarrow> True | Some p \<Rightarrow> isObjectId L p) \<and>
     (case ball_fielder bl of None \<Rightarrow> True | Some p \<Rightarrow> isObjectId L p) \<and>
     1 \<le> ball_innings bl \<and> ball_innings bl \<le> 4 \<and> 0 \<le> ball_over bl \<and>
     1 \<le> ball_no bl \<and> ball_no bl \<le> 6 \<and>
     0 \<le> ball_runs bl \<and> ball_runs bl \<le> 6"

subsection \<open>Update match innings (lines 112-142)\<close>

definition oversDisplay :: "int \<Rightarrow> rat" where
  "oversDisplay b =
     of_int (b div 6) + (if jsRem b 6 > 0 then of_int (jsRem b 6) / 10 else 0)"

text \<open>
  The handler adds \<open>req.body.runs\<close> as it came. A sum that a Number path cannot cast
  leaves the document invalid, and \<open>match.save()\<close> rejects it: the result is \<open>None\<close>.
\<close>

definition updateInnings :: "lib \<Rightarrow> innings \<Rightarrow> ballRequest \<Rightarrow> innings option" where
  "updateInnings L cur req =
     (let runsToAdd = req_runs req;
          ex0 = extras cur;
          ex1 = (if isWide req then ex0\<lparr>wides := wides ex0 + 1\<rparr> else ex0);
          runsToAdd = (if isWide req then jsAdd runsToAdd (JNum 1) else runsToAdd);
          ex2 = (if isNoBall req then ex1\<lparr>noBalls := noBalls ex1 + 1\<rparr> else ex1);
          runsToAdd = (if isNoBall req then jsAdd runsToAdd (JNum 1) else runsToAdd)
      in case (if isBye req then addTo L (byes ex2) (req_runs req) else Some (byes ex2)) of
           None \<Rightarrow> None
         | Some b \<Rightarrow>
        (case (if isLegBye req then addTo L (legByes ex2) (req_runs req)
               else Some (legByes ex2)) of
           None \<Rightarrow> None
         | Some lb \<Rightarrow>
        (case addTo L (runs cur) runsToAdd of
           None \<Rightarrow> None
         | Some rn \<Rightarrow>
             let c1 = cur\<lparr>extras := ex2\<lparr>byes := b, legByes := lb\<rparr>, runs := rn\<rparr>;
                 c2 = (if isWicket req then c1\<lparr>wickets := wickets c1 + 1\<rparr> else c1)
             in Some (if \<not> isWide req \<and> \<not> isNoBall req
                      then c2\<lparr>balls := balls c2 + 1, overs := oversDisplay (balls c2 + 1)\<rparr>
                      else c2))))"

subsection \<open>Determine winner (lines 170-185)\<close>

definition determineWinner :: "innings \<Rightarrow> innings \<Rightarrow> matchResult \<Rightarrow> matchResult" where
  "determineWinner firstInnings secondInnings r =
     (if runs secondInnings > runs firstInnings then
        r\<lparr>winner := Some (battingTeam secondInnings), resultType := Some Wickets,
          margin := Some (showInt (10 - wickets secondInnings) @ '' wickets'')\<rparr>
      else if runs firstInnings > runs secondInnings then
        r\<lparr>winner := Some (battingTeam firstInnings), resultType := Some Runs,
          margin := Some (showInt (runs firstInnings - runs secondInnings) @ '' runs'')\<rparr>
      else r\<lparr>resultType := Some Tie, margin := Some ''Match tied''\<rparr>)"

subsection \<open>Check if innings is complete (lines 144-187)\<close>

definition inningsComplete :: "match \<Rightarrow> innings \<Rightarrow> bool" where
  "inningsComplete m cur \<longleftrightarrow> balls cur div 6 \<ge> maxOvers m \<or> wickets cur \<ge> 10"

text \<open>
  \<open>cur\<close> is the current innings after the update; the handler has mutated it in place,
  at index \<open>currentInnings - 1\<close> of the array. \<open>match.innings[0]\<close> and \<open>match.innings[1]\<close>
  exist where they are read: the current index is in range, and it is at least 1 in the
  branch that reads \<open>match.innings[1]\<close>.
\<close>

definition checkInningsComplete :: "match \<Rightarrow> innings \<Rightarrow> match" where
  "checkInningsComplete m cur =
     (let i = nat (currentInnings m - 1) in
      if inningsComplete m cur then
        let inns = (innings m)[i := cur\<lparr>isCompleted := True\<rparr>] in
        if currentInnings m = 1 then
          let firstInnings = inns ! 0 in
          m\<lparr>currentInnings := 2,
            innings := inns @ [freshInnings (bowlingTeam firstInnings) (battingTeam firstInnings)]\<rparr>
        else
          m\<lparr>status := Completed, innings := inns,
            result := determineWinner (inns ! 0) (inns ! 1) (result m)\<rparr>
      else m\<lparr>innings := (innings m)[i := cur]\<rparr>)"

subsection \<open>The handler\<close>

text \<open>
  The handler returns the database it leaves and its answer. The order is the source's:
  the request validators (400); \<open>Match.findById\<close>, which throws on an identifier that
  does not cast (500); the two guards (400); \<open>ballRecord.save()\<close>, which rejects an
  invalid ball (500) and otherwise stores it; the update of the match and
  \<open>match.save()\<close>, which rejects a document with a failed cast (500, after the ball
  was stored); the 201 answer.
\<close>

definition recordBall :: "lib \<Rightarrow> db \<Rightarrow> ballRequest \<Rightarrow> db \<times> (failure + response)" where
  "recordBall L d req =
     (if req_match req = [] \<or> bowler req = [] \<or> batsman req = []
         \<or> \<not> numericRuns L (req_runs req)
      then (d, Inl (Failure 400 ''Validation failed''))
      else if \<not> isObjectId L (req_match req) then (d, Inl (Failure 500 ''Server error''))
      else case matches d (req_match req) of
        None \<Rightarrow> (d, Inl (Failure 400 ''Match not found or not live''))
      | Some m \<Rightarrow>
          if status m \<noteq> Live then (d, Inl (Failure 400 ''Match not found or not live''))
          else
            (case nthOpt (innings m) (currentInnings m - 1) of
               None \<Rightarrow> (d, Inl (Failure 400 ''Current innings is completed''))
             | Some cur \<Rightarrow>
                 if isCompleted cur then (d, Inl (Failure 400 ''Current innings is completed''))
                 else
                   (case toNumber L (req_runs req) of
                      None \<Rightarrow> (d, Inl (Failure 500 ''Server error''))
                    | Some rn \<Rightarrow>
                        if \<not> validBall L (ballData m cur req rn)
                        then (d, Inl (Failure 500 ''Server error''))
                        else
                          let d1 = d\<lparr>ballLog := ballLog d @ [ballData m cur req rn]\<rparr> in
                          (case updateInnings L cur req of
                             None \<Rightarrow> (d1, Inl (Failure 500 ''Server error''))
                           | Some upd \<Rightarrow>
                               let m' = checkInningsComplete m upd
                               in (d1\<lparr>matches := (matches d)(req_match req \<mapsto> m')\<rparr>,
                                   Inr \<lparr>resp_ball = ballData m cur req rn,
                                        resp_id = req_match req, resp_status = status m',
                                        resp_currentInnings = currentInnings m',
                                        resp_innings = innings m'\<rparr>)))))"

text \<open>A sequence of calls, each on the database the one before left.\<close>

fun recordBalls :: "lib \<Rightarrow> db \<Rightarrow> ballRequest list \<Rightarrow> db" where
  "recordBalls L d [] = d"
| "recordBalls L d (req # reqs) = recordBalls L (fst (recordBall L d req)) reqs"

text \<open>The match a call names, in the database the call leaves.\<close>

definition matchAfter :: "lib \<Rightarrow> db \<Rightarrow> ballRequest \<Rightarrow> match option" where
  "matchAfter L d req = matches (fst (recordBall L d req)) (req_match req)"

text \<open>
  The states the API reaches: from a database with no match and no ball, by creating
  matches, starting them and recording balls.
\<close>

inductive reachable :: "lib \<Rightarrow> db \<Rightarrow> bool" for L :: lib where
  initial: "matches d = Map.empty \<Longrightarrow> ballLog d = [] \<Longrightarrow> reachable L d"
| created: "reachable L d \<Longrightarrow> mid \<notin> dom (matches d) \<Longrightarrow> createMatch L d mid b = Inr d'
            \<Longrightarrow> reachable L d'"
| started: "reachable L d \<Longrightarrow> startMatch L d mid tw td = Inr d' \<Longrightarrow> reachable L d'"
| recorded: "reachable L d \<Longrightarrow> recordBall L d req = (d', out) \<Longrightarrow> reachable L d'"

text \<open>
  The states reached when every match is created with the documented fields only.
\<close>

inductive reachableDocumented :: "lib \<Rightarrow> db \<Rightarrow> bool" for L :: lib where
  initialD: "matches d = Map.empty \<Longrightarrow> ballLog d = [] \<Longrightarrow> reachableDocumented L d"
| createdD: "reachableDocumented L d \<Longrightarrow> mid \<notin> dom (matches d)
             \<Longrightarrow> createMatch L d mid (documentedBody t1 t2 mt ov) = Inr d'
             \<Longrightarrow> reachableDocumented L d'"
| startedD: "reachableDocumented L d \<Longrightarrow> startMatch L d mid tw td = Inr d'
             \<Longrightarrow> reachableDocumented L d'"
| recordedD: "reachableDocumented L d \<Longrightarrow> recordBall L d req = (d', out)
              \<Longrightarrow> reachableDocumented L d'"

section \<open>Concrete libraries, matches and requests\<close>

text \<open>
  An instance of the library functions for the concrete calls below: a numeric string is
  an optional sign and decimal digits, its cast is the integer it writes, an object
  identifier is 24 hexadecimal digits. It agrees with the libraries on the strings those
  calls use: the runs "4" and "+4", the sums "041", "4141", "04", "44" and "0+4" (the
  last is not a number), and the identifiers.
\<close>

definition digits :: "string \<Rightarrow> bool" where
  "digits s \<longleftrightarrow> s \<noteq> [] \<and> list_all (\<lambda>c. c \<in> set ''0123456789'') s"

definition natOfDigits :: "string \<Rightarrow> nat" where
  "natOfDigits s = foldl (\<lambda>n c. 10 * n + (of_char c - 48)) 0 s"

definition exIsNumeric :: "string \<Rightarrow> bool" where
  "exIsNumeric s =
     (case s of [] \<Rightarrow> False
      | c # t \<Rightarrow> if c = CHR ''+'' \<or> c = CHR ''-'' then digits t else digits s)"

definition exCastNumber :: "string \<Rightarrow> int option" where
  "exCastNumber s =
     (case s of [] \<Rightarrow> None
      | c # t \<Rightarrow>
          if c = CHR ''+'' then (if digits t then Some (int (natOfDigits t)) else None)
          else if c = CHR ''-'' then (if digits t then Some (- int (natOfDigits t)) else None)
          else if digits s then Some (int (natOfDigits s)) else None)"

definition exIsObjectId :: "string \<Rightarrow> bool" where
  "exIsObjectId s \<longleftrightarrow>
     length s = 24 \<and> list_all (\<lambda>c. c \<in> set ''0123456789abcdefABCDEF'') s"

definition exLib :: lib where
  "exLib = \<lparr>isNumeric = exIsNumeric, castNumber = exCastNumber, isObjectId = exIsObjectId\<rparr>"

text \<open>Identifiers: two teams, a match, two players.\<close>

definition exT1 :: objectId where "exT1 = ''aaaaaaaaaaaaaaaaaaaaaaa1''"

definition exT2 :: objectId where "exT2 = ''aaaaaaaaaaaaaaaaaaaaaaa2''"

definition exM :: objectId where "exM = ''bbbbbbbbbbbbbbbbbbbbbbb1''"

definition exP1 :: objectId where "exP1 = ''ccccccccccccccccccccccc1''"

definition exP2 :: objectId where "exP2 = ''ccccccccccccccccccccccc2''"

text \<open>
  A database with two teams; a match of \<open>ov\<close> overs between them, created with the
  documented fields and started with team 1 batting first; ball requests for it, with
  the runs as a number and as a string.
\<close>

definition exDb0 :: db where
  "exDb0 = \<lparr>teams = {exT1, exT2}, matches = Map.empty, ballLog = []\<rparr>"

definition exCreated :: "int \<Rightarrow> db" where
  "exCreated ov = exDb0\<lparr>matches := [exM \<mapsto> newMatch (documentedBody exT1 exT2 T20 ov)]\<rparr>"

definition exMatch :: "int \<Rightarrow> match" where
  "exMatch ov =
     (newMatch (documentedBody exT1 exT2 T20 ov))
       \<lparr>status := Live, tossWinner := Some exT1, tossDecision := Some Bat,
        innings := [freshInnings exT1 exT2]\<rparr>"

definition exDb :: "int \<Rightarrow> db" where
  "exDb ov = exDb0\<lparr>matches := [exM \<mapsto> exMatch ov]\<rparr>"

definition exReqV :: "jsValue \<Rightarrow> bool \<Rightarrow> bool \<Rightarrow> ballRequest" where
  "exReqV v w k =
     \<lparr>req_match = exM, bowler = exP2, batsman = exP1, nonStriker = None,
      req_runs = v, isWide = w, isNoBall = False, isBye = False, isLegBye = False,
      isWicket = k, req_wicketType = None, fielder = None, commentary = None\<rparr>"

definition exReq :: "int \<Rightarrow> bool \<Rightarrow> bool \<Rightarrow> ballRequest" where
  "exReq r w k = exReqV (JNum r) w k"

text \<open>
  A chase: the first innings is over at 100 runs, the second stands at \<open>rn\<close> runs for
  \<open>wk\<close> wickets after 10 legal balls of a 20-over match.
\<close>

definition exSecond :: "int \<Rightarrow> int \<Rightarrow> innings" where
  "exSecond rn wk =
     (freshInnings exT2 exT1)\<lparr>runs := rn, wickets := wk, overs := 14 / 10, balls := 10\<rparr>"

definition exChase :: "int \<Rightarrow> int \<Rightarrow> match" where
  "exChase rn wk =
     (exMatch 20)
       \<lparr>currentInnings := 2,
        innings :=
          [(freshInnings exT1 exT2)
             \<lparr>runs := 100, wickets := 10, overs := 15, balls := 90, isCompleted := True\<rparr>,
           exSecond rn wk]\<rparr>"

definition exChaseDb :: "int \<Rightarrow> int \<Rightarrow> db" where
  "exChaseDb rn wk = exDb0\<lparr>matches := [exM \<mapsto> exChase rn wk]\<rparr>"

text \<open>
  A match of 0 overs after its first ball, worth \<open>r1\<close> runs: the first innings is over
  and the second is open.
\<close>

definition exMatch2 :: "int \<Rightarrow> match" where
  "exMatch2 r1 =
     (exMatch 0)
       \<lparr>currentInnings := 2,
        innings :=
          [(freshInnings exT1 exT2)
             \<lparr>runs := r1, overs := 1 / 10, balls := 1, isCompleted := True\<rparr>,
           freshInnings exT2 exT1]\<rparr>"

text \<open>A live match whose current innings is marked completed.\<close>

definition exStaleDb :: db where
  "exStaleDb =
     exDb0\<lparr>matches :=
       [exM \<mapsto> (exMatch 20)\<lparr>innings := [(freshInnings exT1 exT2)\<lparr>isCompleted := True\<rparr>]\<rparr>]\<rparr>"

text \<open>
  The calls of a chase in a match of 1 over. First innings: fourteen wides with 6 runs
  and one with 1 run (100 runs), then six dot balls, which end it. Second innings:
  fourteen wides with 6 runs (98 runs).
\<close>

definition chaseBalls :: "ballRequest list" where
  "chaseBalls =
     replicate 14 (exReq 6 True False) @ [exReq 1 True False] @ replicate 6 (exReq 0 False False)
     @ replicate 14 (exReq 6 True False)"

text \<open>
  A body for POST /api/matches that carries more than the documented fields: a status
  and an innings array, with an innings of 11 wickets that is not completed.
\<close>

definition exWildBody :: matchBody where
  "exWildBody =
     (documentedBody exT1 exT2 T20 20)
       \<lparr>mb_status := Some Live, mb_innings := [(freshInnings exT1 exT2)\<lparr>wickets := 11\<rparr>]\<rparr>"

definition exWildDb :: db where
  "exWildDb = exDb0\<lparr>matches := [exM \<mapsto> newMatch exWildBody]\<rparr>"

section \<open>Invariants\<close>


text \<open>
  The wickets of a match are in order: no innings has more than 10, and an innings that
  is not completed has fewer than 10.
\<close>

definition wicketsOk :: "match \<Rightarrow> bool" where
  "wicketsOk m \<longleftrightarrow>
     (\<forall>inn \<in> set (innings m). wickets inn \<le> 10 \<and> (\<not> isCompleted inn \<longrightarrow> wickets inn < 10))"

section \<open>Basic facts\<close>

lemma jsRem_nonneg: "0 \<le> a \<Longrightarrow> jsRem a 6 = a mod 6"
  by (simp add: jsRem_def)

lemma jsRem_6_bounds: "- 5 \<le> jsRem a 6 \<and> jsRem a 6 \<le> 5"
  unfolding jsRem_def by (cases "a < 0") (simp_all, presburger+)

lemma nthOpt_Some: "nthOpt xs i = Some x \<Longrightarrow> 0 \<le> i \<and> nat i < length xs \<and> xs ! nat i = x"
  by (auto simp: nthOpt_def split: if_splits)

text \<open>What a call answered 201 has checked and what it has written.\<close>

lemma recordBall_Inr:
  assumes "recordBall L d req = (d', Inr r)"
  obtains m cur rn upd where
    "req_match req \<noteq> []" "bowler req \<noteq> []" "batsman req \<noteq> []"
    "numericRuns L (req_runs req)" "isObjectId L (req_match req)"
    "matches d (req_match req) = Some m" "status m = Live"
    "nthOpt (innings m) (currentInnings m - 1) = Some cur" "\<not> isCompleted cur"
    "toNumber L (req_runs req) = Some rn" "validBall L (ballData m cur req rn)"
    "updateInnings L cur req = Some upd"
    "d' = d\<lparr>ballLog := ballLog d @ [ballData m cur req rn],
             matches := (matches d)(req_match req \<mapsto> checkInningsComplete m upd)\<rparr>"
    "resp_ball r = ballData m cur req rn"
  using assms unfolding recordBall_def
  by (auto simp: Let_def split: if_splits option.splits)

text \<open>What any call leaves: the database as it was, or with a valid ball appended, or
  with the ball appended and the match updated.\<close>

lemma recordBall_db:
  assumes "recordBall L d req = (d', out)"
  shows "d' = d \<or>
    (\<exists>m cur rn. matches d (req_match req) = Some m \<and> status m = Live
       \<and> nthOpt (innings m) (currentInnings m - 1) = Some cur \<and> \<not> isCompleted cur
       \<and> validBall L (ballData m cur req rn)
       \<and> (d' = d\<lparr>ballLog := ballLog d @ [ballData m cur req rn]\<rparr>
          \<or> (\<exists>upd. updateInnings L cur req = Some upd
                \<and> d' = d\<lparr>ballLog := ballLog d @ [ballData m cur req rn],
                         matches := (matches d)(req_match req \<mapsto> checkInningsComplete m upd)\<rparr>)))"
  using assms unfolding recordBall_def
  by (auto simp: Let_def split: if_splits option.splits)


lemma recordBall_match:
  assumes "recordBall L d req = (d', Inr r)"
    and "matches d (req_match req) = Some m"
    and "nthOpt (innings m) (currentInnings m - 1) = Some cur"
    and "updateInnings L cur req = Some upd"
  shows "matches d' (req_match req) = Some (checkInningsComplete m upd)"
  using assms(1) by (rule recordBall_Inr) (use assms(2,3,4) in auto)

text \<open>The accumulator on a request whose runs is a JSON number.\<close>

lemma addTo_num: "addTo L old (JNum n) = Some (old + n)"
  by (simp add: addTo_def toNumber_def)

lemma updateInnings_fields:
  assumes "updateInnings L cur req = Some upd"
  shows "battingTeam upd = battingTeam cur" "bowlingTeam upd = bowlingTeam cur"
    "isCompleted upd = isCompleted cur"
    "wickets upd = wickets cur + (if isWicket req then 1 else 0)"
    "wides (extras upd) = wides (extras cur) + (if isWide req then 1 else 0)"
    "noBalls (extras upd) = noBalls (extras cur) + (if isNoBall req then 1 else 0)"
    "balls upd = balls cur + (if \<not> isWide req \<and> \<not> isNoBall req then 1 else 0)"
    "overs upd = (if \<not> isWide req \<and> \<not> isNoBall req then oversDisplay (balls cur + 1) else overs cur)"
  using assms unfolding updateInnings_def
  by (auto simp: Let_def split: option.splits if_splits)

lemma updateInnings_num:
  assumes "req_runs req = JNum n"
  shows "\<exists>upd. updateInnings L cur req = Some upd
     \<and> runs upd = runs cur + n + (if isWide req then 1 else 0) + (if isNoBall req then 1 else 0)
     \<and> byes (extras upd) = byes (extras cur) + (if isBye req then n else 0)
     \<and> legByes (extras upd) = legByes (extras cur) + (if isLegBye req then n else 0)"
  using assms unfolding updateInnings_def
  by (simp add: Let_def addTo_num)

lemma success_pair: "\<not> isl (snd p) \<Longrightarrow> p = (fst p, Inr (projr (snd p)))"
  by (cases p; cases "snd p") auto

lemma exLib_ids:
  "isObjectId exLib exM" "isObjectId exLib exT1" "isObjectId exLib exT2"
  "isObjectId exLib exP1" "isObjectId exLib exP2"
  by (simp_all add: exLib_def exIsObjectId_def exM_def exT1_def exT2_def exP1_def exP2_def)

lemma exIds_nonempty: "exM \<noteq> []" "exT1 \<noteq> []" "exT2 \<noteq> []" "exP1 \<noteq> []" "exP2 \<noteq> []"
  by (simp_all add: exM_def exT1_def exT2_def exP1_def exP2_def)

lemma exT_distinct: "exT1 \<noteq> exT2"
  by (simp add: exT1_def exT2_def)

lemma exCreated_ok:
  "createMatch exLib exDb0 exM (documentedBody exT1 exT2 T20 ov) = Inr (exCreated ov)"
  by (simp add: createMatch_def exDb0_def exCreated_def documentedBody_def newMatch_def
      validMatch_def exLib_ids exIds_nonempty exT_distinct)

lemma exStarted_ok: "startMatch exLib (exCreated ov) exM exT1 Bat = Inr (exDb ov)"
  by (simp add: startMatch_def exCreated_def exDb_def exMatch_def newMatch_def documentedBody_def
      exDb0_def exLib_ids)

lemma exDb_reachable: "reachable exLib (exDb ov)"
proof -
  have "reachable exLib exDb0" by (rule reachable.initial) (simp_all add: exDb0_def)
  then have "reachable exLib (exCreated ov)"
    by (rule reachable.created[where mid=exM]) (simp add: exDb0_def, rule exCreated_ok)
  then show ?thesis by (rule reachable.started) (rule exStarted_ok)
qed


lemma reachableDocumented_reachable: "reachableDocumented L d \<Longrightarrow> reachable L d"
  by (induction rule: reachableDocumented.induct)
     (auto intro: reachable.initial reachable.created reachable.started reachable.recorded)

lemma createMatch_ballLog: "createMatch L d mid b = Inr d' \<Longrightarrow> ballLog d' = ballLog d"
  by (auto simp: createMatch_def split: if_splits)

lemma startMatch_ballLog: "startMatch L d mid tw td = Inr d' \<Longrightarrow> ballLog d' = ballLog d"
  by (auto simp: startMatch_def Let_def split: option.splits if_splits)

lemma reachable_validBall: "reachable L d \<Longrightarrow> x \<in> set (ballLog d) \<Longrightarrow> validBall L x"
proof (induction arbitrary: x rule: reachable.induct)
  case (initial d)
  then show ?case by simp
next
  case (created d mid b d')
  then show ?case by (simp add: createMatch_ballLog)
next
  case (started d mid tw td d')
  then show ?case by (simp add: startMatch_ballLog)
next
  case (recorded d req d' out)
  from recordBall_db[OF recorded.hyps(2)] recorded.IH recorded.prems
  show ?case by auto
qed

lemma reachable_recordBalls: "reachable L d \<Longrightarrow> reachable L (recordBalls L d reqs)"
proof (induction reqs arbitrary: d)
  case Nil
  then show ?case by simp
next
  case (Cons req reqs)
  have "reachable L (fst (recordBall L d req))"
    by (rule reachable.recorded[OF Cons.prems]) (rule prod.collapse[symmetric])
  from Cons.IH[OF this] show ?case by simp
qed


lemma rawBall_not_7: "rawBall b w n \<noteq> 7"
  using jsRem_6_bounds[of "totalBalls b w n"] by (simp add: rawBall_def)

lemma checkInningsComplete_current:
  assumes "nthOpt (innings m) (currentInnings m - 1) = Some cur"
  shows "nthOpt (innings (checkInningsComplete m c)) (currentInnings m - 1) =
           Some (if inningsComplete m c then c\<lparr>isCompleted := True\<rparr> else c)"
  using nthOpt_Some[OF assms]
  by (auto simp: checkInningsComplete_def Let_def nthOpt_def nth_append)

lemma checkInningsComplete_other:
  assumes "i < length (innings m)" "i \<noteq> nat (currentInnings m - 1)"
  shows "i < length (innings (checkInningsComplete m c))
         \<and> innings (checkInningsComplete m c) ! i = innings m ! i"
  using assms by (auto simp: checkInningsComplete_def Let_def nth_append)

lemma oversDisplay_nonneg:
  "0 \<le> b \<Longrightarrow> oversDisplay b = of_int (b div 6) + of_int (b mod 6) / 10"
proof -
  assume "0 \<le> b"
  have "0 \<le> b mod 6" by simp
  then have "\<not> 0 < b mod 6 \<Longrightarrow> b mod 6 = 0" by linarith
  with \<open>0 \<le> b\<close> show ?thesis by (auto simp: oversDisplay_def jsRem_nonneg)
qed







text \<open>The wickets stay in order under a recorded ball.\<close>

lemma wicketsOk_record:
  assumes ok: "wicketsOk m"
    and cur: "nthOpt (innings m) (currentInnings m - 1) = Some cur" "\<not> isCompleted cur"
    and upd: "updateInnings L cur req = Some u"
  shows "wicketsOk (checkInningsComplete m u)"
proof -
  note uf = updateInnings_fields[OF upd]
  from nthOpt_Some[OF cur(1)] have mem: "cur \<in> set (innings m)" by (metis nth_mem)
  with ok cur(2) have "wickets cur < 10" by (simp add: wicketsOk_def)
  then have w: "wickets u \<le> 10" by (simp add: uf)
  have nc: "\<not> inningsComplete m u \<Longrightarrow> wickets u < 10" by (simp add: inningsComplete_def)
  have sub: "\<And>x c. x \<in> set ((innings m)[nat (currentInnings m - 1) := c])
              \<Longrightarrow> x = c \<or> x \<in> set (innings m)"
    by (meson in_set_conv_nth insertE set_update_subset_insert subsetD)
  let ?P = "\<lambda>x. wickets x \<le> 10 \<and> (\<not> isCompleted x \<longrightarrow> wickets x < 10)"
  have upd_ok: "\<forall>x \<in> set ((innings m)[nat (currentInnings m - 1) := c]). ?P x" if "?P c" for c
    using ok sub that unfolding wicketsOk_def by blast
  have fresh: "?P (freshInnings a b)" for a b by (simp add: freshInnings_def)
  show ?thesis
  proof (cases "inningsComplete m u")
    case True
    have "?P (u\<lparr>isCompleted := True\<rparr>)" using w by simp
    from upd_ok[OF this] fresh True show ?thesis
      by (auto simp: wicketsOk_def checkInningsComplete_def Let_def)
  next
    case False
    have "?P u" using w nc[OF False] by simp
    from upd_ok[OF this] False show ?thesis
      by (auto simp: wicketsOk_def checkInningsComplete_def Let_def)
  qed
qed

lemma recordBall_wicketsOk:
  assumes "matches d mid = Some m" "wicketsOk m"
  shows "\<exists>m'. matches (fst (recordBall L d req)) mid = Some m' \<and> wicketsOk m'"
proof -
  obtain d' out where rb: "recordBall L d req = (d', out)" by (cases "recordBall L d req")
  from recordBall_db[OF rb] have "\<exists>m'. matches d' mid = Some m' \<and> wicketsOk m'"
  proof (elim disjE exE conjE)
    assume "d' = d"
    with assms show ?thesis by simp
  next
    fix m0 cur rn
    assume "d' = d\<lparr>ballLog := ballLog d @ [ballData m0 cur req rn]\<rparr>"
    with assms show ?thesis by simp
  next
    fix m0 cur rn upd
    assume m0: "matches d (req_match req) = Some m0"
      and c: "nthOpt (innings m0) (currentInnings m0 - 1) = Some cur" "\<not> isCompleted cur"
      and u: "updateInnings L cur req = Some upd"
      and d': "d' = d\<lparr>ballLog := ballLog d @ [ballData m0 cur req rn],
                       matches := (matches d)(req_match req \<mapsto> checkInningsComplete m0 upd)\<rparr>"
    show ?thesis
    proof (cases "mid = req_match req")
      case True
      with m0 assms(1) have "m0 = m" by simp
      with wicketsOk_record[OF _ c u] assms(2) d' True show ?thesis by simp
    next
      case False
      with assms d' show ?thesis by simp
    qed
  qed
  with rb show ?thesis by simp
qed

lemma recordBalls_wicketsOk:
  "matches d mid = Some m \<Longrightarrow> wicketsOk m \<Longrightarrow>
   \<exists>m'. matches (recordBalls L d reqs) mid = Some m' \<and> wicketsOk m'"
proof (induction reqs arbitrary: d m)
  case Nil
  then show ?case by simp
next
  case (Cons req reqs)
  from recordBall_wicketsOk[OF Cons.prems, of L req] obtain m1 where
    "matches (fst (recordBall L d req)) mid = Some m1" "wicketsOk m1" by blast
  from Cons.IH[OF this] show ?case by simp
qed

text \<open>A completed innings is left as it is by every call.\<close>

lemma recordBall_keeps_completed:
  assumes "matches d mid = Some m" "i < length (innings m)" "isCompleted (innings m ! i)"
  shows "\<exists>m'. matches (fst (recordBall L d req)) mid = Some m' \<and> i < length (innings m')
           \<and> innings m' ! i = innings m ! i"
proof -
  obtain d' out where rb: "recordBall L d req = (d', out)" by (cases "recordBall L d req")
  from recordBall_db[OF rb]
  have "\<exists>m'. matches d' mid = Some m' \<and> i < length (innings m') \<and> innings m' ! i = innings m ! i"
  proof (elim disjE exE conjE)
    assume "d' = d"
    with assms show ?thesis by simp
  next
    fix m0 cur rn
    assume "d' = d\<lparr>ballLog := ballLog d @ [ballData m0 cur req rn]\<rparr>"
    with assms show ?thesis by simp
  next
    fix m0 cur rn upd
    assume m0: "matches d (req_match req) = Some m0"
      and c: "nthOpt (innings m0) (currentInnings m0 - 1) = Some cur" "\<not> isCompleted cur"
      and d': "d' = d\<lparr>ballLog := ballLog d @ [ballData m0 cur req rn],
                       matches := (matches d)(req_match req \<mapsto> checkInningsComplete m0 upd)\<rparr>"
    show ?thesis
    proof (cases "mid = req_match req")
      case True
      with m0 assms(1) have [simp]: "m0 = m" by simp
      from nthOpt_Some[OF c(1)] c(2) assms(3) have "i \<noteq> nat (currentInnings m - 1)" by auto
      from checkInningsComplete_other[OF assms(2) this] show ?thesis using d' True by simp
    next
      case False
      then show ?thesis using d' assms by simp
    qed
  qed
  with rb show ?thesis by simp
qed

lemma recordBalls_keeps_completed:
  "matches d mid = Some m \<Longrightarrow> i < length (innings m) \<Longrightarrow> isCompleted (innings m ! i) \<Longrightarrow>
   \<exists>m'. matches (recordBalls L d reqs) mid = Some m' \<and> i < length (innings m')
        \<and> innings m' ! i = innings m ! i"
proof (induction reqs arbitrary: d m)
  case Nil
  then show ?case by simp
next
  case (Cons req reqs)
  from recordBall_keeps_completed[OF Cons.prems, of L req] obtain m' where
    m': "matches (fst (recordBall L d req)) mid = Some m'" "i < length (innings m')"
        "innings m' ! i = innings m ! i"
    by blast
  from Cons.IH[OF m'(1,2)] m'(3) Cons.prems(3) show ?case by simp
qed

text \<open>Facts about the concrete match and requests.\<close>

lemma exReqV_simps:
  "req_match (exReqV v w k) = exM" "bowler (exReqV v w k) = exP2" "batsman (exReqV v w k) = exP1"
  "nonStriker (exReqV v w k) = None" "fielder (exReqV v w k) = None"
  "req_runs (exReqV v w k) = v" "isWide (exReqV v w k) = w" "isNoBall (exReqV v w k) = False"
  "isBye (exReqV v w k) = False" "isLegBye (exReqV v w k) = False" "isWicket (exReqV v w k) = k"
  by (simp_all add: exReqV_def)

lemma exDb_match: "matches (exDb ov) exM = Some (exMatch ov)"
  by (simp add: exDb_def)

lemma exMatch_simps:
  "status (exMatch ov) = Live" "currentInnings (exMatch ov) = 1" "maxOvers (exMatch ov) = ov"
  "innings (exMatch ov) = [freshInnings exT1 exT2]" "result (exMatch ov) = emptyResult"
  by (simp_all add: exMatch_def newMatch_def documentedBody_def)

lemma exMatch_current:
  "nthOpt (innings (exMatch ov)) (currentInnings (exMatch ov) - 1) = Some (freshInnings exT1 exT2)"
  by (simp add: exMatch_simps nthOpt_def)

lemma freshInnings_simps:
  "runs (freshInnings a b) = 0" "wickets (freshInnings a b) = 0" "balls (freshInnings a b) = 0"
  "overs (freshInnings a b) = 0" "isCompleted (freshInnings a b) = False"
  "battingTeam (freshInnings a b) = a" "bowlingTeam (freshInnings a b) = b"
  "extras (freshInnings a b) = zeroExtras"
  by (simp_all add: freshInnings_def)

lemma exChase_match: "matches (exChaseDb rn wk) exM = Some (exChase rn wk)"
  by (simp add: exChaseDb_def)

lemma exChase_simps:
  "status (exChase rn wk) = Live" "currentInnings (exChase rn wk) = 2"
  "maxOvers (exChase rn wk) = 20" "result (exChase rn wk) = emptyResult"
  "nthOpt (innings (exChase rn wk)) 0 = Some ((freshInnings exT1 exT2)
             \<lparr>runs := 100, wickets := 10, overs := 15, balls := 90, isCompleted := True\<rparr>)"
  "nthOpt (innings (exChase rn wk)) 1 = Some (exSecond rn wk)"
  by (simp_all add: exChase_def exMatch_simps nthOpt_def)

lemma exSecond_simps:
  "runs (exSecond rn wk) = rn" "wickets (exSecond rn wk) = wk" "balls (exSecond rn wk) = 10"
  "isCompleted (exSecond rn wk) = False" "battingTeam (exSecond rn wk) = exT2"
  "bowlingTeam (exSecond rn wk) = exT1"
  by (simp_all add: exSecond_def freshInnings_def)

lemma exMatch2_simps:
  "status (exMatch2 r1) = Live" "currentInnings (exMatch2 r1) = 2" "maxOvers (exMatch2 r1) = 0"
  "result (exMatch2 r1) = emptyResult"
  "nthOpt (innings (exMatch2 r1)) 0 =
     Some ((freshInnings exT1 exT2)\<lparr>runs := r1, overs := 1 / 10, balls := 1, isCompleted := True\<rparr>)"
  "nthOpt (innings (exMatch2 r1)) 1 = Some (freshInnings exT2 exT1)"
  by (simp_all add: exMatch2_def exMatch_simps nthOpt_def)

text \<open>The accumulator on the concrete requests, whose runs is a number.\<close>

lemma exReq_update:
  "\<exists>upd. updateInnings L cur (exReq rr w k) = Some upd
     \<and> runs upd = runs cur + rr + (if w then 1 else 0)
     \<and> wickets upd = wickets cur + (if k then 1 else 0)
     \<and> balls upd = balls cur + (if w then 0 else 1)
     \<and> battingTeam upd = battingTeam cur \<and> bowlingTeam upd = bowlingTeam cur
     \<and> isCompleted upd = isCompleted cur
     \<and> wides (extras upd) = wides (extras cur) + (if w then 1 else 0)
     \<and> noBalls (extras upd) = noBalls (extras cur)
     \<and> byes (extras upd) = byes (extras cur) \<and> legByes (extras upd) = legByes (extras cur)
     \<and> overs upd = (if w then overs cur else oversDisplay (balls cur + 1))"
proof -
  obtain upd where u: "updateInnings L cur (exReq rr w k) = Some upd"
    and r: "runs upd = runs cur + rr + (if isWide (exReq rr w k) then 1 else 0)
              + (if isNoBall (exReq rr w k) then 1 else 0)"
      "byes (extras upd) = byes (extras cur) + (if isBye (exReq rr w k) then rr else 0)"
      "legByes (extras upd) = legByes (extras cur) + (if isLegBye (exReq rr w k) then rr else 0)"
    using updateInnings_num[of "exReq rr w k" rr L cur] by (auto simp: exReq_def exReqV_simps)
  from updateInnings_fields[OF u] r u show ?thesis
    by (simp add: exReq_def exReqV_simps)
qed

text \<open>The 0-over match after its first ball.\<close>

lemma ex_first_ball:
  "matches (recordBalls exLib (exDb 0) [exReq 4 False False]) exM = Some (exMatch2 4)"
  "matches (recordBalls exLib (exDb 0) [exReq 6 False False]) exM = Some (exMatch2 6)"
  by code_simp+

text \<open>The chase replayed: the match before and after the ball that passes the target.\<close>

lemma chase_before:
  "matches (recordBalls exLib (exDb 1) chaseBalls) exM =
     Some ((exMatch 1)
       \<lparr>currentInnings := 2,
        innings :=
          [(freshInnings exT1 exT2)
             \<lparr>runs := 100, overs := 1, balls := 6, extras := zeroExtras\<lparr>wides := 15\<rparr>,
              isCompleted := True\<rparr>,
           (freshInnings exT2 exT1)\<lparr>runs := 98, extras := zeroExtras\<lparr>wides := 14\<rparr>\<rparr>]\<rparr>)"
  by code_simp

lemma chase_after:
  "matches (recordBalls exLib (exDb 1) (chaseBalls @ [exReq 3 False False])) exM =
     Some ((exMatch 1)
       \<lparr>currentInnings := 2,
        innings :=
          [(freshInnings exT1 exT2)
             \<lparr>runs := 100, overs := 1, balls := 6, extras := zeroExtras\<lparr>wides := 15\<rparr>,
              isCompleted := True\<rparr>,
           (freshInnings exT2 exT1)
             \<lparr>runs := 101, overs := 1 / 10, balls := 1, extras := zeroExtras\<lparr>wides := 14\<rparr>\<rparr>]\<rparr>)"
  by code_simp


text \<open>The two answers 500 of the ball handler.\<close>

lemma malformed_match_id:
  assumes "req_match req \<noteq> []" "bowler req \<noteq> []" "batsman req \<noteq> []"
    and "numericRuns L (req_runs req)" and "\<not> isObjectId L (req_match req)"
  shows "recordBall L d req = (d, Inl (Failure 500 ''Server error''))"
  using assms by (simp add: recordBall_def)

lemma stored_ball_then_500:
  "snd (recordBall exLib (exDb 20) (exReqV (JStr ''+4'') False False))
     = Inl (Failure 500 ''Server error'')
   \<and> map ball_runs (ballLog (fst (recordBall exLib (exDb 20) (exReqV (JStr ''+4'') False False))))
     = [4]
   \<and> matches (fst (recordBall exLib (exDb 20) (exReqV (JStr ''+4'') False False))) exM
     = matches (exDb 20) exM"
  by code_simp

text \<open>PATCH /start leaves the wickets in order; so does a body without innings.\<close>

lemma startMatch_wicketsOk:
  assumes "startMatch L d0 mid tw td = Inr d" "matches d mid = Some m"
  shows "wicketsOk m"
  using assms
  by (auto simp: startMatch_def Let_def wicketsOk_def freshInnings_def
      split: if_splits option.splits)

lemma exWild_created: "createMatch exLib exDb0 exM exWildBody = Inr exWildDb"
  by (simp add: createMatch_def exDb0_def exWildDb_def exWildBody_def documentedBody_def
      newMatch_def validMatch_def exLib_ids exIds_nonempty exT_distinct)

lemma exWild_reachable: "reachable exLib exWildDb"
proof -
  have "reachable exLib exDb0" by (rule reachable.initial) (simp_all add: exDb0_def)
  then show ?thesis
    by (rule reachable.created[where mid=exM]) (simp add: exDb0_def, rule exWild_created)
qed

section \<open>The ball index (claims C6, C7)\<close>



text \<open>
  Claim C7. For a non-negative balls count the computed ball number \<open>(t % 6) + 1\<close> lies
  between 1 and 6, so it is never 7: the guard for a 7th ball never fires and the stamped
  pair is the plain \<open>(floor(t/6), (t % 6) + 1)\<close>. Every ball event in the log of a
  reachable database has a ball number between 1 and 6.
\<close>

theorem ball_in_over_range:
  assumes "0 \<le> b" and "reachable L d"
  shows "1 \<le> rawBall b w n \<and> rawBall b w n \<le> 6 \<and> rawBall b w n \<noteq> 7
         \<and> calculateOverAndBall b w n = (totalBalls b w n div 6, rawBall b w n)
         \<and> (\<forall>x \<in> set (ballLog d). 1 \<le> ball_no x \<and> ball_no x \<le> 6)"
proof -
  have t: "0 \<le> totalBalls b w n" using assms(1) by (simp add: totalBalls_def)
  have raw: "rawBall b w n = totalBalls b w n mod 6 + 1"
    using t by (simp add: rawBall_def jsRem_nonneg)
  have "0 \<le> totalBalls b w n mod 6" "totalBalls b w n mod 6 < 6" by simp_all
  with raw have rng: "1 \<le> rawBall b w n \<and> rawBall b w n \<le> 6" by linarith
  have idx: "calculateOverAndBall b w n = (totalBalls b w n div 6, rawBall b w n)"
    using rawBall_not_7[of b w n] by (simp add: calculateOverAndBall_def Let_def)
  have "\<forall>x \<in> set (ballLog d). 1 \<le> ball_no x \<and> ball_no x \<le> 6"
    using reachable_validBall[OF assms(2)] by (auto simp: validBall_def)
  with rng idx rawBall_not_7[of b w n] show ?thesis by blast
qed

theorem ball_in_over_range_witness:
  "1 \<le> rawBall 5 False False \<and> rawBall 5 False False \<le> 6 \<and> rawBall 5 False False \<noteq> 7
   \<and> calculateOverAndBall 5 False False = (1, 1)
   \<and> map ball_no (ballLog (recordBalls exLib (exDb 20) [exReq 4 False False])) = [2]
   \<and> list_all (\<lambda>x. 1 \<le> ball_no x \<and> ball_no x \<le> 6)
         (ballLog (recordBalls exLib (exDb 20) [exReq 4 False False]))"
proof -
  have re: "reachable exLib (recordBalls exLib (exDb 20) [exReq 4 False False])"
    by (rule reachable_recordBalls[OF exDb_reachable])
  have lg: "map ball_no (ballLog (recordBalls exLib (exDb 20) [exReq 4 False False])) = [2]"
    by code_simp
  have "totalBalls 5 False False div 6 = 1" by (simp add: totalBalls_def)
  moreover have "rawBall 5 False False = 1" by (simp add: rawBall_def totalBalls_def jsRem_def)
  ultimately show ?thesis
    using ball_in_over_range[of 5 exLib "recordBalls exLib (exDb 20) [exReq 4 False False]"
        False False, OF _ re] lg
    by (simp add: list_all_iff del: recordBalls.simps)
qed

section \<open>The run and extras accumulator (claims C4, C5)\<close>

text \<open>
  Claim C4 says that every recorded ball adds its runs, plus 1 for a wide and 1 for a
  no-ball, to the runs of the innings. The handler adds \<open>req.body.runs\<close> as it came, and
  the validator \<open>isNumeric()\<close> admits the string "4" as well as the number 4. A wide
  with runs "4" on a fresh innings is answered 201 and its ball document holds runs 4,
  but the innings goes from 0 to 41 where the claim gives 5, and from 41 to 4141 on the
  next such ball; two legal balls with runs "4" leave 44 where the claim gives 8. With
  runs a JSON number the sums are the claim's (\<open>accumulator_additive_numeric\<close>).
\<close>

theorem string_runs_concatenate:
  "\<not> isl (snd (recordBall exLib (exDb 20) (exReqV (JStr ''4'') True False)))
   \<and> map ball_runs (ballLog (fst (recordBall exLib (exDb 20) (exReqV (JStr ''4'') True False)))) = [4]
   \<and> map_option (map runs \<circ> innings) (matches (exDb 20) exM) = Some [0]
   \<and> map_option (map runs \<circ> innings)
       (matches (recordBalls exLib (exDb 20) [exReqV (JStr ''4'') True False]) exM) = Some [41]
   \<and> map_option (map runs \<circ> innings)
       (matches (recordBalls exLib (exDb 20)
          [exReqV (JStr ''4'') True False, exReqV (JStr ''4'') True False]) exM) = Some [4141]
   \<and> map_option (map runs \<circ> innings)
       (matches (recordBalls exLib (exDb 20)
          [exReqV (JStr ''4'') False False, exReqV (JStr ''4'') False False]) exM) = Some [44]"
  by code_simp




section \<open>Rejected calls (claim C9)\<close>

text \<open>
  Claim C9 says that a missing match and a match that is not live are reported by
  distinct errors. The handler reports both by the same response, status 400 with the
  message "Match not found or not live", and leaves the database as it was: here for a
  database without the match and for one where the match is still scheduled.
\<close>

theorem distinct_errors_counterexample:
  "recordBall exLib exDb0 (exReq 4 False False)
     = (exDb0, Inl (Failure 400 ''Match not found or not live''))
   \<and> recordBall exLib (exCreated 20) (exReq 4 False False)
     = (exCreated 20, Inl (Failure 400 ''Match not found or not live''))"
  by (simp add: recordBall_def exDb0_def exCreated_def exReq_def exReqV_simps exIds_nonempty
      exLib_ids numericRuns_def newMatch_def documentedBody_def)

text \<open>
  Claim C9, amended. For a request that passes the request validators and names a match
  identifier that casts, the call fails with the error "Match not found or not live"
  when the match does not exist and when it is not live, and with the distinct error
  "Current innings is completed" when the match is live and its current innings is
  missing or already completed. In each of these cases the handler returns the database
  it was given: no match is changed and no ball event is appended. (The answers 500 are
  other cases: \<open>malformed_match_id\<close>, \<open>stored_ball_then_500\<close>.)
\<close>

theorem rejected_calls:
  assumes "req_match req \<noteq> []" "bowler req \<noteq> []" "batsman req \<noteq> []"
    and "numericRuns L (req_runs req)" and "isObjectId L (req_match req)"
  shows "(matches d (req_match req) = None \<or> (\<exists>m. matches d (req_match req) = Some m \<and> status m \<noteq> Live)
           \<longrightarrow> recordBall L d req = (d, Inl (Failure 400 ''Match not found or not live'')))
       \<and> ((\<exists>m. matches d (req_match req) = Some m \<and> status m = Live
              \<and> (nthOpt (innings m) (currentInnings m - 1) = None
                  \<or> (\<exists>cur. nthOpt (innings m) (currentInnings m - 1) = Some cur \<and> isCompleted cur)))
           \<longrightarrow> recordBall L d req = (d, Inl (Failure 400 ''Current innings is completed'')))
       \<and> Failure 400 ''Match not found or not live'' \<noteq> Failure 400 ''Current innings is completed''"
  using assms by (auto simp: recordBall_def split: option.splits)

theorem rejected_calls_witness:
  "recordBall exLib exDb0 (exReq 4 False False)
     = (exDb0, Inl (Failure 400 ''Match not found or not live''))
   \<and> recordBall exLib (exCreated 20) (exReq 4 False False)
     = (exCreated 20, Inl (Failure 400 ''Match not found or not live''))
   \<and> recordBall exLib exStaleDb (exReq 4 False False)
     = (exStaleDb, Inl (Failure 400 ''Current innings is completed''))"
proof -
  let ?q = "exReq 4 False False"
  have v: "req_match ?q \<noteq> []" "bowler ?q \<noteq> []" "batsman ?q \<noteq> []"
    "numericRuns exLib (req_runs ?q)" "isObjectId exLib (req_match ?q)"
    by (simp_all add: exReq_def exReqV_simps exIds_nonempty exLib_ids numericRuns_def)
  have a: "matches exDb0 (req_match ?q) = None"
    by (simp add: exDb0_def)
  have b: "\<exists>m. matches (exCreated 20) (req_match ?q) = Some m \<and> status m \<noteq> Live"
    by (simp add: exCreated_def exReq_def exReqV_simps newMatch_def documentedBody_def)
  have c: "\<exists>m. matches exStaleDb (req_match ?q) = Some m \<and> status m = Live
              \<and> (nthOpt (innings m) (currentInnings m - 1) = None
                  \<or> (\<exists>cur. nthOpt (innings m) (currentInnings m - 1) = Some cur \<and> isCompleted cur))"
    by (simp add: exStaleDb_def exReq_def exReqV_simps exMatch_simps nthOpt_def)
  from rejected_calls[of ?q exLib exDb0, OF v] a
    rejected_calls[of ?q exLib "exCreated 20", OF v] b
    rejected_calls[of ?q exLib exStaleDb, OF v] c
  show ?thesis by simp
qed

section \<open>The frame of a ball that does not end the innings (claim C10)\<close>

text \<open>
  Claim C10. After a successful call that leaves the innings it was recorded in open,
  the match differs from the match before only in that innings: status, currentInnings,
  result and the overs limit are unchanged, the number of innings is unchanged, every
  other innings is unchanged, the batting and bowling teams of every innings are
  unchanged, and every other match is unchanged.
\<close>

theorem open_innings_frame:
  assumes "recordBall L d req = (d', Inr r)"
    and "matches d (req_match req) = Some m"
    and "nthOpt (innings m) (currentInnings m - 1) = Some cur"
    and "matches d' (req_match req) = Some m'"
    and "nthOpt (innings m') (currentInnings m - 1) = Some cur'"
    and "\<not> isCompleted cur'"
  shows "m' = m\<lparr>innings := (innings m)[nat (currentInnings m - 1) := cur']\<rparr>
       \<and> status m' = status m \<and> currentInnings m' = currentInnings m \<and> result m' = result m
       \<and> maxOvers m' = maxOvers m \<and> length (innings m') = length (innings m)
       \<and> (\<forall>i < length (innings m). i \<noteq> nat (currentInnings m - 1) \<longrightarrow> innings m' ! i = innings m ! i)
       \<and> (\<forall>i < length (innings m). battingTeam (innings m' ! i) = battingTeam (innings m ! i)
             \<and> bowlingTeam (innings m' ! i) = bowlingTeam (innings m ! i))
       \<and> (\<forall>mid. mid \<noteq> req_match req \<longrightarrow> matches d' mid = matches d mid)"
proof -
  from assms(1) show ?thesis
  proof (rule recordBall_Inr)
    fix m0 cur0 rn upd
    assume m0: "matches d (req_match req) = Some m0"
      and c0: "nthOpt (innings m0) (currentInnings m0 - 1) = Some cur0"
      and u: "updateInnings L cur0 req = Some upd"
      and d': "d' = d\<lparr>ballLog := ballLog d @ [ballData m0 cur0 req rn],
                       matches := (matches d)(req_match req \<mapsto> checkInningsComplete m0 upd)\<rparr>"
    from m0 assms(2) have [simp]: "m0 = m" by simp
    from c0 assms(3) have [simp]: "cur0 = cur" by simp
    note uf = updateInnings_fields[OF u]
    let ?i = "nat (currentInnings m - 1)"
    have m': "m' = checkInningsComplete m upd" using d' assms(4) by simp
    have "nthOpt (innings m') (currentInnings m - 1) =
            Some (if inningsComplete m upd then upd\<lparr>isCompleted := True\<rparr> else upd)"
      unfolding m' by (rule checkInningsComplete_current[OF assms(3)])
    with assms(5,6) have nc: "\<not> inningsComplete m upd" and cu: "cur' = upd"
      by (auto split: if_splits)
    have eq: "m' = m\<lparr>innings := (innings m)[?i := cur']\<rparr>"
      using nc cu m' by (simp add: checkInningsComplete_def Let_def)
    have idx: "?i < length (innings m)" "innings m ! ?i = cur"
      using nthOpt_Some[OF assms(3)] by simp_all
    have teams: "\<forall>i < length (innings m). battingTeam (innings m' ! i) = battingTeam (innings m ! i)
             \<and> bowlingTeam (innings m' ! i) = bowlingTeam (innings m ! i)"
      using idx cu uf(1,2) by (auto simp: eq nth_list_update)
    have others: "\<forall>mid. mid \<noteq> req_match req \<longrightarrow> matches d' mid = matches d mid"
      using d' by simp
    from eq teams others show ?thesis by (simp add: eq)
  qed
qed

theorem open_innings_frame_witness:
  "\<exists>d' r m' cur'. recordBall exLib (exDb 20) (exReq 4 False False) = (d', Inr r)
     \<and> matches d' exM = Some m' \<and> nthOpt (innings m') 0 = Some cur' \<and> \<not> isCompleted cur'
     \<and> m' = (exMatch 20)\<lparr>innings := [cur']\<rparr> \<and> status m' = Live \<and> currentInnings m' = 1
     \<and> length (innings m') = 1 \<and> battingTeam cur' = exT1 \<and> runs cur' = 4"
proof -
  let ?req = "exReq 4 False False"
  let ?p = "recordBall exLib (exDb 20) ?req"
  have ok: "\<not> isl (snd ?p)" by code_simp
  have rb: "?p = (fst ?p, Inr (projr (snd ?p)))" by (rule success_pair[OF ok])
  have rm: "req_match ?req = exM" by (simp add: exReq_def exReqV_simps)
  obtain upd where u: "updateInnings exLib (freshInnings exT1 exT2) ?req = Some upd"
    and ur: "runs upd = 4"
    using updateInnings_num[of ?req 4 exLib "freshInnings exT1 exT2"]
    by (auto simp: exReq_def exReqV_simps freshInnings_simps)
  note uf = updateInnings_fields[OF u]
  have nc: "\<not> inningsComplete (exMatch 20) upd"
    by (simp add: inningsComplete_def uf exMatch_simps freshInnings_simps exReq_def exReqV_simps)
  have m0: "matches (exDb 20) (req_match ?req) = Some (exMatch 20)" by (simp add: rm exDb_match)
  have ma: "matches (fst ?p) (req_match ?req) = Some (checkInningsComplete (exMatch 20) upd)"
    by (rule recordBall_match[OF rb m0 exMatch_current u])
  have ev: "checkInningsComplete (exMatch 20) upd = (exMatch 20)\<lparr>innings := [upd]\<rparr>"
    using nc by (simp add: checkInningsComplete_def Let_def exMatch_simps)
  have cur: "nthOpt (innings (checkInningsComplete (exMatch 20) upd)) (currentInnings (exMatch 20) - 1)
               = Some upd"
    unfolding ev by (simp add: nthOpt_def exMatch_simps)
  have op: "\<not> isCompleted upd" by (simp add: uf freshInnings_simps)
  from open_innings_frame[OF rb m0 exMatch_current ma cur op]
  have "checkInningsComplete (exMatch 20) upd = (exMatch 20)\<lparr>innings := [upd]\<rparr>
        \<and> status (checkInningsComplete (exMatch 20) upd) = Live
        \<and> currentInnings (checkInningsComplete (exMatch 20) upd) = 1
        \<and> length (innings (checkInningsComplete (exMatch 20) upd)) = 1"
    by (simp add: exMatch_simps)
  with rb ma cur op ur uf(1) show ?thesis
    by (intro exI[of _ "fst ?p"] exI[of _ "projr (snd ?p)"]
        exI[of _ "checkInningsComplete (exMatch 20) upd"] exI[of _ upd])
       (simp add: rm exMatch_simps freshInnings_simps)
qed

section \<open>Completion of an innings and of the match (claims C1, C2, C3)\<close>

text \<open>
  Claim C1. After the accumulator update of a recorded ball, if
  \<open>floor(balls / 6) >= match.overs\<close> or \<open>wickets >= 10\<close>, the current innings is marked
  completed. When it is the first innings, a new innings is appended with the batting and
  bowling teams of the first swapped and runs, wickets, overs, balls and the four extras
  counters at 0, currentInnings becomes 2 and the match stays live. Otherwise the match
  becomes completed and its result is the one the result calculator gives for the first
  two innings.
\<close>

theorem innings_completion:
  assumes "recordBall L d req = (d', Inr r)"
    and "matches d (req_match req) = Some m"
    and "nthOpt (innings m) (currentInnings m - 1) = Some cur"
    and "updateInnings L cur req = Some upd"
    and "maxOvers m \<le> balls upd div 6 \<or> 10 \<le> wickets upd"
  shows "\<exists>m'. matches d' (req_match req) = Some m'
          \<and> nthOpt (innings m') (currentInnings m - 1) = Some (upd\<lparr>isCompleted := True\<rparr>)
          \<and> (currentInnings m = 1 \<longrightarrow>
               innings m' = (innings m)[0 := upd\<lparr>isCompleted := True\<rparr>] @
                 [\<lparr>battingTeam = bowlingTeam cur, bowlingTeam = battingTeam cur, runs = 0,
                   wickets = 0, overs = 0, balls = 0,
                   extras = \<lparr>wides = 0, noBalls = 0, byes = 0, legByes = 0\<rparr>,
                   isCompleted = False\<rparr>]
               \<and> currentInnings m' = 2 \<and> status m' = Live \<and> result m' = result m)
          \<and> (currentInnings m \<noteq> 1 \<longrightarrow>
               innings m' = (innings m)[nat (currentInnings m - 1) := upd\<lparr>isCompleted := True\<rparr>]
               \<and> currentInnings m' = currentInnings m \<and> status m' = Completed
               \<and> result m' = determineWinner (innings m' ! 0) (innings m' ! 1) (result m))"
proof -
  let ?m' = "checkInningsComplete m upd"
  note uf = updateInnings_fields[OF assms(4)]
  have ic: "inningsComplete m upd" using assms(5) by (simp add: inningsComplete_def)
  have 1: "matches d' (req_match req) = Some ?m'"
    by (rule recordBall_match[OF assms(1-4)])
  have 2: "nthOpt (innings ?m') (currentInnings m - 1) = Some (upd\<lparr>isCompleted := True\<rparr>)"
    using checkInningsComplete_current[OF assms(3), of upd] ic by simp
  have idx: "nat (currentInnings m - 1) < length (innings m)" "innings m ! nat (currentInnings m - 1) = cur"
    using nthOpt_Some[OF assms(3)] by simp_all
  have 3: "currentInnings m = 1 \<longrightarrow>
               innings ?m' = (innings m)[0 := upd\<lparr>isCompleted := True\<rparr>] @
                 [\<lparr>battingTeam = bowlingTeam cur, bowlingTeam = battingTeam cur, runs = 0,
                   wickets = 0, overs = 0, balls = 0,
                   extras = \<lparr>wides = 0, noBalls = 0, byes = 0, legByes = 0\<rparr>,
                   isCompleted = False\<rparr>]
               \<and> currentInnings ?m' = 2 \<and> status ?m' = status m \<and> result ?m' = result m"
    using ic idx
    by (auto simp: checkInningsComplete_def Let_def freshInnings_def zeroExtras_def uf(1,2))
  have 4: "currentInnings m \<noteq> 1 \<longrightarrow>
               innings ?m' = (innings m)[nat (currentInnings m - 1) := upd\<lparr>isCompleted := True\<rparr>]
               \<and> currentInnings ?m' = currentInnings m \<and> status ?m' = Completed
               \<and> result ?m' = determineWinner (innings ?m' ! 0) (innings ?m' ! 1) (result m)"
    using ic by (simp add: checkInningsComplete_def Let_def)
  have live: "status m = Live" using assms(1) by (rule recordBall_Inr) (use assms(2) in auto)
  from 1 2 3 4 live show ?thesis by auto
qed

theorem innings_completion_witness:
  "(\<exists>m'. matches (fst (recordBall exLib (exDb 0) (exReq 4 False False))) exM = Some m'
      \<and> map isCompleted (innings m') = [True, False]
      \<and> map battingTeam (innings m') = [exT1, exT2]
      \<and> map bowlingTeam (innings m') = [exT2, exT1]
      \<and> map runs (innings m') = [4, 0]
      \<and> currentInnings m' = 2 \<and> status m' = Live)
   \<and> (\<exists>m'. matches (fst (recordBall exLib (exChaseDb 97 9) (exReq 4 False True))) exM = Some m'
      \<and> map isCompleted (innings m') = [True, True]
      \<and> status m' = Completed \<and> resultType (result m') = Some Wickets)"
proof -
  let ?q1 = "exReq 4 False False" and ?q2 = "exReq 4 False True"
  let ?p1 = "recordBall exLib (exDb 0) ?q1" and ?p2 = "recordBall exLib (exChaseDb 97 9) ?q2"
  have rm: "req_match ?q1 = exM" "req_match ?q2 = exM" by (simp_all add: exReq_def exReqV_simps)
  have ok1: "\<not> isl (snd ?p1)" by code_simp
  have ok2: "\<not> isl (snd ?p2)" by code_simp
  note rb1 = success_pair[OF ok1] and rb2 = success_pair[OF ok2]
  from exReq_update[of exLib "freshInnings exT1 exT2" 4 False False] obtain u1 where
    u1: "updateInnings exLib (freshInnings exT1 exT2) ?q1 = Some u1"
    and f1: "runs u1 = 4" "wickets u1 = 0" "balls u1 = 1" "battingTeam u1 = exT1"
      "bowlingTeam u1 = exT2"
    by (auto simp: freshInnings_simps)
  from exReq_update[of exLib "exSecond 97 9" 4 False True] obtain u2 where
    u2: "updateInnings exLib (exSecond 97 9) ?q2 = Some u2"
    and f2: "runs u2 = 101" "wickets u2 = 10" "balls u2 = 11"
    by (auto simp: exSecond_simps)
  have m1: "matches (exDb 0) (req_match ?q1) = Some (exMatch 0)" by (simp add: rm exDb_match)
  have m2: "matches (exChaseDb 97 9) (req_match ?q2) = Some (exChase 97 9)"
    by (simp add: rm exChase_match)
  have c2: "nthOpt (innings (exChase 97 9)) (currentInnings (exChase 97 9) - 1) = Some (exSecond 97 9)"
    by (simp add: exChase_simps)
  have h1: "maxOvers (exMatch 0) \<le> balls u1 div 6 \<or> 10 \<le> wickets u1"
    by (simp add: exMatch_simps f1)
  have h2: "maxOvers (exChase 97 9) \<le> balls u2 div 6 \<or> 10 \<le> wickets u2"
    by (simp add: f2)
  have A: "\<exists>m'. matches (fst ?p1) exM = Some m'
      \<and> map isCompleted (innings m') = [True, False]
      \<and> map battingTeam (innings m') = [exT1, exT2]
      \<and> map bowlingTeam (innings m') = [exT2, exT1]
      \<and> map runs (innings m') = [4, 0]
      \<and> currentInnings m' = 2 \<and> status m' = Live"
    using innings_completion[OF rb1 m1 exMatch_current u1 h1]
    by (auto simp: rm exMatch_simps freshInnings_simps f1)
  have B: "\<exists>m'. matches (fst ?p2) exM = Some m'
      \<and> map isCompleted (innings m') = [True, True]
      \<and> status m' = Completed \<and> resultType (result m') = Some Wickets"
    using innings_completion[OF rb2 m2 c2 u2 h2]
    by (auto simp: rm exChase_simps exChase_def exMatch_simps determineWinner_def f2)
  from A B show ?thesis by (rule conjI)
qed



text \<open>
  Claim C3 says that the match result is set as soon as the second innings passes the
  first innings' 100 runs. The handler ends an innings only on overs or wickets. Replayed
  from the start of a 1-over match: the first innings ends at 100, the second stands at
  98 without loss before its first legal ball, and a ball for 3 takes it to 101 with no
  wicket down and one ball of the over bowled; the match is still live, the second
  innings is open and no result is set.
\<close>

theorem chase_ends_at_target_counterexample:
  "map_option (map runs \<circ> innings) (matches (recordBalls exLib (exDb 1) chaseBalls) exM)
     = Some [100, 98]
   \<and> map_option (map isCompleted \<circ> innings) (matches (recordBalls exLib (exDb 1) chaseBalls) exM)
     = Some [True, False]
   \<and> map_option (map runs \<circ> innings)
        (matches (recordBalls exLib (exDb 1) (chaseBalls @ [exReq 3 False False])) exM)
     = Some [100, 101]
   \<and> map_option (map wickets \<circ> innings)
        (matches (recordBalls exLib (exDb 1) (chaseBalls @ [exReq 3 False False])) exM)
     = Some [0, 0]
   \<and> map_option (map balls \<circ> innings)
        (matches (recordBalls exLib (exDb 1) (chaseBalls @ [exReq 3 False False])) exM)
     = Some [6, 1]
   \<and> map_option maxOvers
        (matches (recordBalls exLib (exDb 1) (chaseBalls @ [exReq 3 False False])) exM)
     = Some 1
   \<and> map_option status
        (matches (recordBalls exLib (exDb 1) (chaseBalls @ [exReq 3 False False])) exM)
     = Some Live
   \<and> map_option result
        (matches (recordBalls exLib (exDb 1) (chaseBalls @ [exReq 3 False False])) exM)
     = Some \<lparr>winner = None, resultType = None, margin = None\<rparr>
   \<and> map_option (map isCompleted \<circ> innings)
        (matches (recordBalls exLib (exDb 1) (chaseBalls @ [exReq 3 False False])) exM)
     = Some [True, False]"
  by (simp add: chase_before chase_after exMatch_simps freshInnings_simps emptyResult_def)

text \<open>
  Claim C3, amended. For a match whose first innings finished at 100 runs, a ball that
  takes the second innings to 101 or more while its wickets are below 10 and its overs
  are not exhausted leaves the match live, the second innings open and the result
  unchanged; a ball that takes it to 101 or more and completes the innings (overs
  exhausted or 10 wickets) completes the match with result type wickets, the margin
  "(10 - wickets) wickets" for the wickets at that point, and the second innings'
  batting team as winner.
\<close>

theorem chase_runs_to_completion:
  assumes "recordBall L d req = (d', Inr r)"
    and "matches d (req_match req) = Some m" and "currentInnings m = 2"
    and "nthOpt (innings m) 0 = Some firstInnings" and "nthOpt (innings m) 1 = Some cur"
    and "runs firstInnings = 100"
    and "updateInnings L cur req = Some upd" and "101 \<le> runs upd"
  shows "\<exists>m'. matches d' (req_match req) = Some m'
     \<and> (balls upd div 6 < maxOvers m \<and> wickets upd < 10 \<longrightarrow>
          status m' = Live \<and> result m' = result m \<and> currentInnings m' = 2
          \<and> nthOpt (innings m') 1 = Some upd \<and> \<not> isCompleted upd)
     \<and> (maxOvers m \<le> balls upd div 6 \<or> 10 \<le> wickets upd \<longrightarrow>
          status m' = Completed
          \<and> result m' = \<lparr>winner = Some (battingTeam upd), resultType = Some Wickets,
                         margin = Some (showInt (10 - wickets upd) @ '' wickets'')\<rparr>)"
proof -
  let ?m' = "checkInningsComplete m upd"
  note uf = updateInnings_fields[OF assms(7)]
  have c: "nthOpt (innings m) (currentInnings m - 1) = Some cur" using assms(3,5) by simp
  have 1: "matches d' (req_match req) = Some ?m'"
    by (rule recordBall_match[OF assms(1,2) c assms(7)])
  from nthOpt_Some[OF assms(4)] nthOpt_Some[OF assms(5)]
  have len: "0 < length (innings m)" "1 < length (innings m)"
    and n0: "innings m ! 0 = firstInnings" by simp_all
  have live: "status m = Live" and op: "\<not> isCompleted cur"
    using assms(1) by (rule recordBall_Inr, use assms(2) c in auto)+
  have 2: "balls upd div 6 < maxOvers m \<and> wickets upd < 10 \<longrightarrow>
          status ?m' = Live \<and> result ?m' = result m \<and> currentInnings ?m' = 2
          \<and> nthOpt (innings ?m') 1 = Some upd \<and> \<not> isCompleted upd"
    using len live op assms(3) uf(3)
    by (auto simp: checkInningsComplete_def inningsComplete_def Let_def nthOpt_def)
  have 3: "maxOvers m \<le> balls upd div 6 \<or> 10 \<le> wickets upd \<longrightarrow>
          status ?m' = Completed
          \<and> result ?m' = \<lparr>winner = Some (battingTeam upd), resultType = Some Wickets,
                         margin = Some (showInt (10 - wickets upd) @ '' wickets'')\<rparr>"
    using len n0 assms(3,6,8)
    by (auto simp: checkInningsComplete_def inningsComplete_def Let_def determineWinner_def)
  from 1 2 3 show ?thesis by blast
qed

theorem chase_runs_to_completion_witness:
  "(\<exists>m'. matches (fst (recordBall exLib (exChaseDb 97 3) (exReq 4 False False))) exM = Some m'
       \<and> status m' = Live \<and> result m' = result (exChase 97 3)
       \<and> map_option runs (nthOpt (innings m') 1) = Some 101)
   \<and> (\<exists>m'. matches (fst (recordBall exLib (exChaseDb 97 9) (exReq 4 False True))) exM = Some m'
       \<and> status m' = Completed
       \<and> result m' = \<lparr>winner = Some exT2, resultType = Some Wickets, margin = Some ''0 wickets''\<rparr>)"
proof -
  let ?q1 = "exReq 4 False False" and ?q2 = "exReq 4 False True"
  let ?p1 = "recordBall exLib (exChaseDb 97 3) ?q1" and ?p2 = "recordBall exLib (exChaseDb 97 9) ?q2"
  have rm: "req_match (exReq rr w k) = exM" for rr w k by (simp add: exReq_def exReqV_simps)
  have ok1: "\<not> isl (snd ?p1)" by code_simp
  have ok2: "\<not> isl (snd ?p2)" by code_simp
  have r100: "runs ((freshInnings exT1 exT2)
             \<lparr>runs := 100, wickets := 10, overs := 15, balls := 90, isCompleted := True\<rparr>) = 100"
    by simp
  from exReq_update[of exLib "exSecond 97 3" 4 False False] obtain u1 where
    u1: "updateInnings exLib (exSecond 97 3) ?q1 = Some u1"
    and f1: "runs u1 = 101" "wickets u1 = 3" "balls u1 = 11" "battingTeam u1 = exT2"
    by (auto simp: exSecond_simps)
  from exReq_update[of exLib "exSecond 97 9" 4 False True] obtain u2 where
    u2: "updateInnings exLib (exSecond 97 9) ?q2 = Some u2"
    and f2: "runs u2 = 101" "wickets u2 = 10" "balls u2 = 11" "battingTeam u2 = exT2"
    by (auto simp: exSecond_simps)
  have m1: "matches (exChaseDb 97 3) (req_match ?q1) = Some (exChase 97 3)"
    by (simp add: rm exChase_match)
  have m2: "matches (exChaseDb 97 9) (req_match ?q2) = Some (exChase 97 9)"
    by (simp add: rm exChase_match)
  have g1: "101 \<le> runs u1" and g2: "101 \<le> runs u2" by (simp_all add: f1 f2)
  have A: "\<exists>m'. matches (fst ?p1) exM = Some m'
       \<and> status m' = Live \<and> result m' = result (exChase 97 3)
       \<and> map_option runs (nthOpt (innings m') 1) = Some 101"
    using chase_runs_to_completion[OF success_pair[OF ok1] m1 exChase_simps(2) exChase_simps(5)
        exChase_simps(6) r100 u1 g1]
    by (auto simp: rm f1 exChase_simps)
  have B: "\<exists>m'. matches (fst ?p2) exM = Some m' \<and> status m' = Completed
       \<and> result m' = \<lparr>winner = Some exT2, resultType = Some Wickets, margin = Some ''0 wickets''\<rparr>"
    using chase_runs_to_completion[OF success_pair[OF ok2] m2 exChase_simps(2) exChase_simps(5)
        exChase_simps(6) r100 u2 g2]
    by (auto simp: rm f2 exChase_simps showInt_def digitChar_def)
  from A B show ?thesis by (rule conjI)
qed

section \<open>Wickets and completed innings (claim C8)\<close>

text \<open>
  Claim C8 says that in every reachable state each innings has at most 10 wickets, and
  that a call made once an innings is completed is rejected. Neither holds. After the
  first innings of a match has completed, the next call is answered 201: it is recorded
  in the second innings. And POST /api/matches stores the body it is given: a body with
  status live and an innings of 11 wickets creates that match, and a wicket recorded on
  it makes 12.
\<close>

theorem completed_innings_counterexample:
  "map_option (map isCompleted \<circ> innings)
       (matches (recordBalls exLib (exDb 0) [exReq 4 False False]) exM) = Some [True, False]
   \<and> \<not> isl (snd (recordBall exLib (recordBalls exLib (exDb 0) [exReq 4 False False])
                   (exReq 6 False False)))
   \<and> createMatch exLib exDb0 exM exWildBody = Inr exWildDb
   \<and> map_option (map wickets \<circ> innings) (matches exWildDb exM) = Some [11]
   \<and> \<not> isl (snd (recordBall exLib exWildDb (exReq 0 False True)))
   \<and> map_option (map wickets \<circ> innings) (matchAfter exLib exWildDb (exReq 0 False True))
       = Some [12, 0]"
proof -
  have 1: "map_option (map isCompleted \<circ> innings)
       (matches (recordBalls exLib (exDb 0) [exReq 4 False False]) exM) = Some [True, False]"
    by code_simp
  have 2: "\<not> isl (snd (recordBall exLib (recordBalls exLib (exDb 0) [exReq 4 False False])
                   (exReq 6 False False)))"
    by code_simp
  have 3: "map_option (map wickets \<circ> innings) (matches exWildDb exM) = Some [11]"
    by code_simp
  have 4: "\<not> isl (snd (recordBall exLib exWildDb (exReq 0 False True)))"
    by code_simp
  have 5: "map_option (map wickets \<circ> innings) (matchAfter exLib exWildDb (exReq 0 False True))
       = Some [12, 0]"
    by code_simp
  from 1 2 exWild_created 3 4 5 show ?thesis by (intro conjI)
qed

text \<open>
  Claim C8, amended. For a match whose wickets are in order (no innings above 10, every
  innings that is not completed below 10), which is how PATCH /start leaves a match,
  every sequence of calls leaves each of its innings with at most 10 wickets. An innings
  that is completed is left as it is by every later sequence of calls. A call on a match
  whose current innings is that completed innings is rejected and writes nothing; a call
  that is answered 201 was recorded in another innings of the match and leaves the
  completed one as it is.
\<close>

theorem completed_innings_frozen:
  assumes "matches d mid = Some m" and "wicketsOk m" and "i < length (innings m)"
  shows "wickets (innings m ! i) \<le> 10
       \<and> (\<forall>m'. matches (recordBalls L d reqs) mid = Some m' \<longrightarrow>
             (\<forall>inn \<in> set (innings m'). wickets inn \<le> 10))
       \<and> (isCompleted (innings m ! i) \<longrightarrow>
            (\<exists>m'. matches (recordBalls L d reqs) mid = Some m' \<and> i < length (innings m')
                  \<and> innings m' ! i = innings m ! i))
       \<and> (isCompleted (innings m ! i) \<and> currentInnings m = int i + 1 \<longrightarrow>
            (\<forall>req. req_match req = mid \<longrightarrow> (\<exists>e. recordBall L d req = (d, Inl e))))
       \<and> (\<forall>req d' r. req_match req = mid \<and> recordBall L d req = (d', Inr r)
               \<and> isCompleted (innings m ! i)
             \<longrightarrow> currentInnings m \<noteq> int i + 1
                 \<and> (\<exists>m'. matches d' mid = Some m' \<and> i < length (innings m')
                        \<and> innings m' ! i = innings m ! i))
       \<and> (\<forall>d0 tw td d1 m1. startMatch L d0 mid tw td = Inr d1 \<and> matches d1 mid = Some m1
             \<longrightarrow> wicketsOk m1)"
proof -
  have 1: "wickets (innings m ! i) \<le> 10" using assms(2,3) by (simp add: wicketsOk_def)
  have 2: "\<forall>m'. matches (recordBalls L d reqs) mid = Some m' \<longrightarrow>
             (\<forall>inn \<in> set (innings m'). wickets inn \<le> 10)"
    using recordBalls_wicketsOk[OF assms(1,2), of L reqs] by (auto simp: wicketsOk_def)
  have 3: "isCompleted (innings m ! i) \<longrightarrow>
            (\<exists>m'. matches (recordBalls L d reqs) mid = Some m' \<and> i < length (innings m')
                  \<and> innings m' ! i = innings m ! i)"
    using recordBalls_keeps_completed[OF assms(1,3)] by blast
  have 4: "isCompleted (innings m ! i) \<and> currentInnings m = int i + 1 \<longrightarrow>
            (\<forall>req. req_match req = mid \<longrightarrow> (\<exists>e. recordBall L d req = (d, Inl e)))"
    using assms(1,3) by (auto simp: recordBall_def nthOpt_def)
  have 5: "\<forall>d0 tw td d1 m1. startMatch L d0 mid tw td = Inr d1 \<and> matches d1 mid = Some m1
             \<longrightarrow> wicketsOk m1"
    using startMatch_wicketsOk by blast
  have 6: "\<forall>req d' r. req_match req = mid \<and> recordBall L d req = (d', Inr r)
               \<and> isCompleted (innings m ! i)
             \<longrightarrow> currentInnings m \<noteq> int i + 1
                 \<and> (\<exists>m'. matches d' mid = Some m' \<and> i < length (innings m')
                        \<and> innings m' ! i = innings m ! i)"
  proof (intro allI impI, elim conjE)
    fix req d' r
    assume q: "req_match req = mid" and rb: "recordBall L d req = (d', Inr r)"
      and ic: "isCompleted (innings m ! i)"
    have a: "currentInnings m \<noteq> int i + 1"
    proof
      assume "currentInnings m = int i + 1"
      with 4 ic q obtain e where "recordBall L d req = (d, Inl e)" by blast
      with rb show False by simp
    qed
    from recordBall_keeps_completed[OF assms(1,3) ic, of L req] rb
    have "\<exists>m'. matches d' mid = Some m' \<and> i < length (innings m')
                        \<and> innings m' ! i = innings m ! i" by simp
    with a show "currentInnings m \<noteq> int i + 1
                 \<and> (\<exists>m'. matches d' mid = Some m' \<and> i < length (innings m')
                        \<and> innings m' ! i = innings m ! i)" by simp
  qed
  from 1 2 3 4 5 6 show ?thesis by blast
qed

theorem completed_innings_frozen_witness:
  "wicketsOk (exMatch 0)
   \<and> (\<exists>m'. matches (recordBalls exLib (exDb 0)
              [exReq 4 False False, exReq 6 False True, exReq 1 False False]) exM = Some m'
         \<and> list_all (\<lambda>inn. wickets inn \<le> 10) (innings m') \<and> map wickets (innings m') = [0, 1])
   \<and> (\<exists>m'. matches (recordBalls exLib (recordBalls exLib (exDb 0) [exReq 4 False False])
              [exReq 6 False False, exReq 1 False False]) exM = Some m'
         \<and> innings m' ! 0 = innings (exMatch2 4) ! 0 \<and> isCompleted (innings m' ! 0))
   \<and> \<not> isl (snd (recordBall exLib (recordBalls exLib (exDb 0) [exReq 4 False False])
                   (exReq 6 False False)))
   \<and> (\<exists>m'. matches (fst (recordBall exLib (recordBalls exLib (exDb 0) [exReq 4 False False])
                   (exReq 6 False False))) exM = Some m'
         \<and> innings m' ! 0 = innings (exMatch2 4) ! 0)
   \<and> (\<exists>e. recordBall exLib
              (recordBalls exLib (exDb 0) [exReq 4 False False, exReq 6 False False])
              (exReq 1 False False)
            = (recordBalls exLib (exDb 0) [exReq 4 False False, exReq 6 False False], Inl e))"
proof -
  let ?d1 = "recordBalls exLib (exDb 0) [exReq 4 False False]"
  let ?d2 = "recordBalls exLib (exDb 0) [exReq 4 False False, exReq 6 False False]"
  let ?p = "recordBall exLib ?d1 (exReq 6 False False)"
  have rm: "req_match (exReq rr w k) = exM" for rr w k by (simp add: exReq_def exReqV_simps)
  have l0: "0 < length (innings (exMatch 0))" by (simp add: exMatch_simps)
  have w0: "wicketsOk (exMatch 0)"
    by (simp add: wicketsOk_def exMatch_simps freshInnings_simps)
  have S: "wicketsOk (exMatch 0)"
    using completed_innings_frozen[OF exDb_match w0 l0, of exLib "[]"]
      exStarted_ok[of 0] exDb_match[of 0]
    by blast
  have ev: "map_option (map wickets \<circ> innings) (matches (recordBalls exLib (exDb 0)
              [exReq 4 False False, exReq 6 False True, exReq 1 False False]) exM) = Some [0, 1]"
    by code_simp
  have A: "\<exists>m'. matches (recordBalls exLib (exDb 0)
              [exReq 4 False False, exReq 6 False True, exReq 1 False False]) exM = Some m'
         \<and> list_all (\<lambda>inn. wickets inn \<le> 10) (innings m') \<and> map wickets (innings m') = [0, 1]"
    using completed_innings_frozen[OF exDb_match w0 l0, of exLib
        "[exReq 4 False False, exReq 6 False True, exReq 1 False False]"] ev
    by (auto simp: list_all_iff simp del: recordBalls.simps)
  have m1: "matches ?d1 exM = Some (exMatch2 4)" by (rule ex_first_ball)
  have w1: "wicketsOk (exMatch2 4)" by (simp add: wicketsOk_def exMatch2_def freshInnings_def)
  have l1: "0 < length (innings (exMatch2 4))" by (simp add: exMatch2_def)
  have c1: "isCompleted (innings (exMatch2 4) ! 0)" by (simp add: exMatch2_def)
  have B: "\<exists>m'. matches (recordBalls exLib ?d1 [exReq 6 False False, exReq 1 False False]) exM = Some m'
         \<and> innings m' ! 0 = innings (exMatch2 4) ! 0 \<and> isCompleted (innings m' ! 0)"
    using completed_innings_frozen[OF m1 w1 l1, of exLib "[exReq 6 False False, exReq 1 False False]"]
      c1
    by (auto simp del: recordBalls.simps)
  have ok: "\<not> isl (snd ?p)" by code_simp
  from completed_innings_frozen[OF m1 w1 l1, of exLib "[]"]
  have six: "\<forall>req d' r. req_match req = exM \<and> recordBall exLib ?d1 req = (d', Inr r)
               \<and> isCompleted (innings (exMatch2 4) ! 0)
             \<longrightarrow> currentInnings (exMatch2 4) \<noteq> int 0 + 1
                 \<and> (\<exists>m'. matches d' exM = Some m' \<and> 0 < length (innings m')
                        \<and> innings m' ! 0 = innings (exMatch2 4) ! 0)"
    by blast
  have D: "\<exists>m'. matches (fst ?p) exM = Some m' \<and> innings m' ! 0 = innings (exMatch2 4) ! 0"
    using six[rule_format, of "exReq 6 False False" "fst ?p" "projr (snd ?p)"]
      rm[of 6 False False] success_pair[OF ok] c1
    by blast
  have m2: "matches ?d2 exM = Some ((exMatch2 4)
      \<lparr>status := Completed,
       innings := [(freshInnings exT1 exT2)\<lparr>runs := 4, overs := 1 / 10, balls := 1, isCompleted := True\<rparr>,
                   (freshInnings exT2 exT1)\<lparr>runs := 6, overs := 1 / 10, balls := 1, isCompleted := True\<rparr>],
       result := \<lparr>winner = Some exT2, resultType = Some Wickets, margin = Some ''10 wickets''\<rparr>\<rparr>)"
    (is "_ = Some ?m2")
    by code_simp
  have w2: "wicketsOk ?m2" by (simp add: wicketsOk_def freshInnings_def)
  have l2: "1 < length (innings ?m2)" by simp
  have C: "\<exists>e. recordBall exLib ?d2 (exReq 1 False False) = (?d2, Inl e)"
    using completed_innings_frozen[OF m2 w2 l2, of exLib "[]"] rm[of 1 False False]
    by (auto simp: exMatch2_simps freshInnings_simps simp del: recordBalls.simps)
  from S A B ok D C show ?thesis by blast
qed

end
